theory Spec2Isabelle
  imports Complex_Main
begin

section \<open>Conventions of the embedding\<close>

text \<open>
  The two decision components of the repository are embedded:
  \<^verbatim>\<open>modules/verification.py\<close> (class \<^verbatim>\<open>VerificationEngine\<close>) and
  \<^verbatim>\<open>modules/trust_aggregator.py\<close> (class \<^verbatim>\<open>TrustAggregator\<close>).

  \<^item> Python numbers (\<^verbatim>\<open>int\<close> and \<^verbatim>\<open>float\<close>) are exact rationals: the arithmetic and the
    comparisons are the exact ones, and the binary rounding of the \<^verbatim>\<open>float\<close> operations is
    left out. A division whose divisor is not tested in the same expression is
    \<open>truediv\<close>, which raises on a zero divisor.
  \<^item> Python strings are \<open>string\<close>. The hashes are digests written with ASCII characters,
    so one \<open>char\<close> is one character of the Python string.
  \<^item> A mapping whose keys the code reads with \<^verbatim>\<open>.get\<close> is a record with one optional field
    per key, \<open>None\<close> for a key that the mapping does not have. The values have the types
    that the producers of the repository give them: strings for the hashes and the
    classification, numbers for the scores.
  \<^item> An exception is a value \<open>Inl e\<close> of \<open>py_error + 'a\<close>.
\<close>

datatype py_error = ZeroDivisionError

definition truediv :: "rat \<Rightarrow> rat \<Rightarrow> py_error + rat" where
  "truediv a b = (if b = 0 then Inl ZeroDivisionError else Inr (a / b))"

text \<open>Truth value of an optional string: \<^verbatim>\<open>None\<close> and \<^verbatim>\<open>''\<close> are false.\<close>

definition truthy :: "string option \<Rightarrow> bool" where
  "truthy h = (case h of None \<Rightarrow> False | Some s \<Rightarrow> s \<noteq> [])"

text \<open>\<^verbatim>\<open>str.lower\<close> on the characters of a digest: \<^verbatim>\<open>A\<close>..\<^verbatim>\<open>Z\<close> go to \<^verbatim>\<open>a\<close>..\<^verbatim>\<open>z\<close>.\<close>

definition lower_char :: "char \<Rightarrow> char" where
  "lower_char c =
     (if (65::nat) \<le> of_char c \<and> of_char c \<le> (90::nat)
      then char_of (of_char c + (32::nat)) else c)"

definition lower :: "string \<Rightarrow> string" where
  "lower s = map lower_char s"

subsection \<open>Rounding and the format \<^verbatim>\<open>.1f\<close>\<close>

text \<open>
  \<^verbatim>\<open>round(x, 1)\<close> and the format specification \<^verbatim>\<open>.1f\<close> round to one decimal. On exact
  numbers a tie goes to the even neighbour (in binary floating point most decimal ties do
  not arise, the stored number lying slightly above or below). The format keeps the sign of
  a negative number that rounds to zero.
\<close>

definition round_half_even :: "rat \<Rightarrow> int" where
  "round_half_even x =
     (let f = \<lfloor>x\<rfloor>; d = x - of_int f
      in if d < 1 / 2 then f else if 1 / 2 < d then f + 1 else if even f then f else f + 1)"

definition round1 :: "rat \<Rightarrow> rat" where
  "round1 x = of_int (round_half_even (x * 10)) / 10"

fun str_nat :: "nat \<Rightarrow> string" where
  "str_nat n =
     (if n < 10 then [char_of (48 + n)] else str_nat (n div 10) @ [char_of (48 + n mod 10)])"

declare str_nat.simps [simp del]

definition format_1f :: "rat \<Rightarrow> string" where
  "format_1f x =
     (let n = nat (round_half_even (\<bar>x\<bar> * 10))
      in (if x < 0 then ''-'' else '''') @ str_nat (n div 10) @ ''.'' @ str_nat (n mod 10))"

section \<open>Verification engine\<close>

subsection \<open>Data\<close>

text \<open>
  The fingerprint mapping made by \<^verbatim>\<open>FingerprintGenerator.generate\<close>; \<^verbatim>\<open>verify\<close> reads the
  three hashes below with \<^verbatim>\<open>.get(key)\<close>, which gives \<^verbatim>\<open>None\<close> for a missing key as for the
  value \<^verbatim>\<open>None\<close>. An entry of the registry is the mapping that the application appends to
  \<^verbatim>\<open>protected_fingerprints\<close>; its field \<open>fingerprint\<close> is \<open>None\<close> when the entry has no
  such key.
\<close>

record fingerprint =
  sha256 :: "string option"
  perceptual_hash :: "string option"
  face_embedding_hash :: "string option"

record protected_entry =
  fingerprint :: "fingerprint option"
  timestamp :: "string option"
  protection_flag :: bool

record decision =
  match_found :: bool
  match_type :: "string option"
  similarity :: rat
  matched_fingerprint :: "protected_entry option"
  details :: "(string \<times> string) list"

text \<open>\<^verbatim>\<open>protected.get('fingerprint', {})\<close>: a missing key gives the empty mapping.\<close>

definition empty_fingerprint :: fingerprint where
  "empty_fingerprint = \<lparr>sha256 = None, perceptual_hash = None, face_embedding_hash = None\<rparr>"

definition get_fingerprint :: "protected_entry \<Rightarrow> fingerprint" where
  "get_fingerprint protected =
     (case fingerprint protected of None \<Rightarrow> empty_fingerprint | Some fp \<Rightarrow> fp)"

subsection \<open>The three comparisons\<close>

definition check_exact_match :: "string option \<Rightarrow> string option \<Rightarrow> bool" where
  "check_exact_match hash1 hash2 =
     (if \<not> truthy hash1 \<or> \<not> truthy hash2 then False
      else lower (the hash1) = lower (the hash2))"

text \<open>\<^verbatim>\<open>sum(c1 != c2 for c1, c2 in zip(hash1, hash2))\<close> and its counterpart with \<^verbatim>\<open>==\<close>.\<close>

definition hamming :: "string \<Rightarrow> string \<Rightarrow> nat" where
  "hamming s1 s2 = length (filter (\<lambda>(c1, c2). c1 \<noteq> c2) (zip s1 s2))"

definition common_chars :: "string \<Rightarrow> string \<Rightarrow> nat" where
  "common_chars s1 s2 = length (filter (\<lambda>(c1, c2). c1 = c2) (zip s1 s2))"

text \<open>
  The statements after the \<^verbatim>\<open>try\<close> block of \<^verbatim>\<open>_check_perceptual_similarity\<close>;
  \<^verbatim>\<open>_check_face_similarity\<close> ends with the same statements.
\<close>

definition string_similarity :: "string \<Rightarrow> string \<Rightarrow> py_error + rat" where
  "string_similarity s1 s2 =
     (if s1 = s2 then Inr 100
      else (case truediv (of_nat (common_chars s1 s2)) (of_nat (max (length s1) (length s2))) of
              Inl e \<Rightarrow> Inl e
            | Inr q \<Rightarrow> Inr (q * 100)))"

text \<open>
  The \<^verbatim>\<open>try\<close> block returns when both hashes have 16 characters; \<^verbatim>\<open>except Exception: pass\<close>
  sends an exception raised inside it to the code after the block.
\<close>

definition check_perceptual_similarity :: "string option \<Rightarrow> string option \<Rightarrow> py_error + rat" where
  "check_perceptual_similarity hash1 hash2 =
     (if \<not> truthy hash1 \<or> \<not> truthy hash2 then Inr 0
      else
        let s1 = the hash1; s2 = the hash2
        in if length s1 = 16 \<and> length s2 = 16
           then (case truediv (of_nat (hamming s1 s2)) (of_nat (length s1)) of
                   Inr q \<Rightarrow> Inr (max 0 ((1 - q) * 100))
                 | Inl e \<Rightarrow> string_similarity s1 s2)
           else string_similarity s1 s2)"

definition check_face_similarity :: "string option \<Rightarrow> string option \<Rightarrow> py_error + rat" where
  "check_face_similarity hash1 hash2 =
     (if \<not> truthy hash1 \<or> \<not> truthy hash2 then Inr 0
      else string_similarity (the hash1) (the hash2))"

subsection \<open>The scan of \<^verbatim>\<open>verify\<close>\<close>

text \<open>The three local variables that the loop updates.\<close>

record best =
  best_match :: "protected_entry option"
  best_similarity :: rat
  best_match_type :: "string option"

text \<open>One iteration either leaves the function with a decision or goes on with the state.\<close>

datatype scan_result = Return decision | Continue best

definition exact_decision :: "protected_entry \<Rightarrow> decision" where
  "exact_decision protected =
     \<lparr>match_found = True, match_type = Some ''exact'', similarity = 100,
      matched_fingerprint = Some protected,
      details = [(''method'', ''SHA-256 cryptographic hash match''), (''confidence'', ''100%'')]\<rparr>"

definition track :: "best \<Rightarrow> string \<Rightarrow> protected_entry \<Rightarrow> rat \<Rightarrow> best" where
  "track b kind protected sim =
     (if best_similarity b < sim
      then \<lparr>best_match = Some protected, best_similarity = sim, best_match_type = Some kind\<rparr>
      else b)"

definition scan_entry :: "fingerprint \<Rightarrow> best \<Rightarrow> protected_entry \<Rightarrow> py_error + scan_result" where
  "scan_entry fingerprint_data b protected =
     (let protected_fp = get_fingerprint protected
      in if check_exact_match (sha256 fingerprint_data) (sha256 protected_fp)
         then Inr (Return (exact_decision protected))
         else (case check_perceptual_similarity (perceptual_hash fingerprint_data)
                      (perceptual_hash protected_fp) of
                 Inl e \<Rightarrow> Inl e
               | Inr perceptual_sim \<Rightarrow>
                   let b1 = track b ''perceptual'' protected perceptual_sim
                   in if truthy (face_embedding_hash fingerprint_data)
                         \<and> truthy (face_embedding_hash protected_fp)
                      then (case check_face_similarity (face_embedding_hash fingerprint_data)
                                   (face_embedding_hash protected_fp) of
                              Inl e \<Rightarrow> Inl e
                            | Inr face_sim \<Rightarrow> Inr (Continue (track b1 ''face'' protected face_sim)))
                      else Inr (Continue b1)))"

fun scan :: "fingerprint \<Rightarrow> best \<Rightarrow> protected_entry list \<Rightarrow> py_error + scan_result" where
  "scan fingerprint_data b [] = Inr (Continue b)"
| "scan fingerprint_data b (protected # rest) =
     (case scan_entry fingerprint_data b protected of
        Inl e \<Rightarrow> Inl e
      | Inr (Return d) \<Rightarrow> Inr (Return d)
      | Inr (Continue b') \<Rightarrow> scan fingerprint_data b' rest)"

definition initial_best :: best where
  "initial_best = \<lparr>best_match = None, best_similarity = 0, best_match_type = None\<rparr>"

text \<open>
  \<^verbatim>\<open>f'{best_match_type} similarity match'\<close> formats the value \<^verbatim>\<open>None\<close> as the word
  \<^verbatim>\<open>None\<close>.
\<close>

definition str_opt :: "string option \<Rightarrow> string" where
  "str_opt v = (case v of None \<Rightarrow> ''None'' | Some s \<Rightarrow> s)"

text \<open>\<^verbatim>\<open>self.perceptual_similarity_threshold\<close>, set in \<^verbatim>\<open>__init__\<close>.\<close>

definition perceptual_similarity_threshold :: rat where
  "perceptual_similarity_threshold = 85 / 100"

definition final_decision :: "best \<Rightarrow> decision" where
  "final_decision b =
     (if perceptual_similarity_threshold * 100 \<le> best_similarity b
      then \<lparr>match_found = True, match_type = best_match_type b,
            similarity = best_similarity b, matched_fingerprint = best_match b,
            details = [(''method'', str_opt (best_match_type b) @ '' similarity match''),
                       (''confidence'', format_1f (best_similarity b) @ ''%'')]\<rparr>
      else \<lparr>match_found = False, match_type = None,
            similarity = best_similarity b, matched_fingerprint = None,
            details = [(''message'', ''No significant match found''),
                       (''highest_similarity'', format_1f (best_similarity b) @ ''%'')]\<rparr>)"

definition no_fingerprints_decision :: decision where
  "no_fingerprints_decision =
     \<lparr>match_found = False, match_type = None, similarity = 0, matched_fingerprint = None,
      details = [(''message'', ''No protected fingerprints in database'')]\<rparr>"

definition verify :: "fingerprint \<Rightarrow> protected_entry list \<Rightarrow> py_error + decision" where
  "verify fingerprint_data protected_fingerprints =
     (if protected_fingerprints = [] then Inr no_fingerprints_decision
      else (case scan fingerprint_data initial_best protected_fingerprints of
              Inl e \<Rightarrow> Inl e
            | Inr (Return d) \<Rightarrow> Inr d
            | Inr (Continue b) \<Rightarrow> Inr (final_decision b)))"

section \<open>Trust aggregator\<close>

subsection \<open>Data\<close>

text \<open>
  The three arguments of \<^verbatim>\<open>aggregate\<close> are optional mappings. The fields are the keys
  that the aggregator reads with \<^verbatim>\<open>.get(key, default)\<close>, \<open>None\<close> for a missing key; the
  last field lists the keys of the mapping that the aggregator never reads (the producers
  add several). A mapping is true in a condition when it has a key at all.
\<close>

record image_analysis =
  classification :: "string option"
  confidence :: "rat option"
  image_other_keys :: "string list"

record fake_news_analysis =
  fake_news_likelihood :: "rat option"
  credibility_score :: "rat option"
  uncertain :: "rat option"
  fake_news_other_keys :: "string list"

record sensitive_content =
  sensitive_score :: "rat option"
  sensitive_other_keys :: "string list"

definition image_given :: "image_analysis option \<Rightarrow> bool" where
  "image_given a =
     (case a of None \<Rightarrow> False
      | Some d \<Rightarrow> classification d \<noteq> None \<or> confidence d \<noteq> None \<or> image_other_keys d \<noteq> [])"

definition fake_news_given :: "fake_news_analysis option \<Rightarrow> bool" where
  "fake_news_given a =
     (case a of None \<Rightarrow> False
      | Some d \<Rightarrow> fake_news_likelihood d \<noteq> None \<or> credibility_score d \<noteq> None
                 \<or> uncertain d \<noteq> None \<or> fake_news_other_keys d \<noteq> [])"

definition sensitive_given :: "sensitive_content option \<Rightarrow> bool" where
  "sensitive_given a =
     (case a of None \<Rightarrow> False
      | Some d \<Rightarrow> sensitive_score d \<noteq> None \<or> sensitive_other_keys d \<noteq> [])"

text \<open>\<^verbatim>\<open>d.get(key, default)\<close> on a field.\<close>

definition get_or :: "'a option \<Rightarrow> 'a \<Rightarrow> 'a" where
  "get_or field dflt = (case field of None \<Rightarrow> dflt | Some v \<Rightarrow> v)"

text \<open>The entries of \<^verbatim>\<open>module_results\<close>, one optional entry per channel.\<close>

record image_entry =
  image_risk :: rat
  image_classification :: string
  image_confidence :: rat

record fake_news_entry =
  fake_news_risk :: rat
  entry_fake_news_likelihood :: rat
  entry_credibility_score :: rat

record sensitive_entry =
  sensitive_risk :: rat
  score :: rat

record module_results =
  image :: "image_entry option"
  fake_news :: "fake_news_entry option"
  sensitive :: "sensitive_entry option"

text \<open>
  The recommendations are fixed sentences, several of them with pictographs; each
  constructor stands for one sentence of \<^verbatim>\<open>_generate_recommendations\<close>, in the order of
  the source.
\<close>

datatype recommendation =
  High_Risk_Extreme_Caution
  | Verify_Multiple_Sources
  | Do_Not_Share
  | Moderate_Risk_Verify
  | Check_Fact_Checking
  | Image_Shows_Manipulation
  | Text_Contains_Misinformation
  | Cross_Reference_Sources
  | Appears_Trustworthy
  | Still_Verify_Claims
  | Review_Results

record verdict =
  overall_trust_risk :: rat
  threat_category :: string
  confidence :: rat
  module_results :: module_results
  explanation :: string
  recommendations :: "recommendation list"

text \<open>
  \<^verbatim>\<open>self.weights\<close>, set in \<^verbatim>\<open>__init__\<close>; \<^verbatim>\<open>aggregate\<close> looks up its three keys only.
\<close>

definition weights :: "string \<Rightarrow> rat" where
  "weights channel =
     (if channel = ''image_analysis'' then 4 / 10
      else if channel = ''fake_news'' then 4 / 10
      else if channel = ''sensitive_content'' then 2 / 10
      else 0)"

subsection \<open>The helper methods\<close>

definition is_deepfake :: "image_analysis option \<Rightarrow> bool" where
  "is_deepfake a = (image_given a \<and> classification (the a) = Some ''deepfake'')"

text \<open>
  \<^verbatim>\<open>fake_news_analysis and fake_news_analysis.get('fake_news_likelihood', 0) > bound\<close>
\<close>

definition likelihood_above :: "fake_news_analysis option \<Rightarrow> rat \<Rightarrow> bool" where
  "likelihood_above a bound =
     (fake_news_given a \<and> bound < get_or (fake_news_likelihood (the a)) 0)"

definition determine_threat_category ::
  "rat \<Rightarrow> image_analysis option \<Rightarrow> fake_news_analysis option \<Rightarrow> string" where
  "determine_threat_category overall_risk image_analysis fake_news_analysis =
     (if 65 \<le> overall_risk then
        if is_deepfake image_analysis then
          if likelihood_above fake_news_analysis 50
          then ''Severe: Manipulated Media + Misinformation''
          else ''High: Manipulated Media''
        else if likelihood_above fake_news_analysis 50 then ''High: Misinformation''
        else ''High: Multiple Risk Factors''
      else if 40 \<le> overall_risk then
        if is_deepfake image_analysis then ''Medium: Potential Media Manipulation''
        else if likelihood_above fake_news_analysis 40 then ''Medium: Potential Misinformation''
        else ''Medium: Moderate Risk''
      else if 30 \<le> overall_risk then ''Low-Medium: Some Concerns''
      else ''Low: Generally Trustworthy'')"

definition generate_recommendations ::
  "rat \<Rightarrow> string \<Rightarrow> image_analysis option \<Rightarrow> fake_news_analysis option \<Rightarrow> recommendation list"
  where
  "generate_recommendations overall_risk category image_analysis fake_news_analysis =
     (let r1 = (if 70 \<le> overall_risk
                then [High_Risk_Extreme_Caution, Verify_Multiple_Sources, Do_Not_Share]
                else if 50 \<le> overall_risk then [Moderate_Risk_Verify, Check_Fact_Checking]
                else []);
          r2 = r1 @ (if is_deepfake image_analysis then [Image_Shows_Manipulation] else []);
          r3 = r2 @ (if likelihood_above fake_news_analysis 60
                     then [Text_Contains_Misinformation, Cross_Reference_Sources] else []);
          r4 = r3 @ (if overall_risk < 30 then [Appears_Trustworthy, Still_Verify_Claims] else [])
      in if r4 = [] then [Review_Results] else r4)"

subsection \<open>\<^verbatim>\<open>aggregate\<close>\<close>

text \<open>
  Each of the three blocks of \<^verbatim>\<open>aggregate\<close> gives the entry for \<^verbatim>\<open>module_results\<close>, what
  it appends to \<^verbatim>\<open>risk_scores\<close> (channel, risk, weight) and what it appends to
  \<^verbatim>\<open>explanations\<close>.
\<close>

definition process_image ::
  "image_analysis option \<Rightarrow> image_entry option \<times> (string \<times> rat \<times> rat) list \<times> string list"
  where
  "process_image image_analysis =
     (if image_given image_analysis then
        let d = the image_analysis;
            cls = get_or (classification d) ''unknown'';
            conf = get_or (image_analysis.confidence d) 0;
            (risk, clause) =
              (if cls = ''deepfake''
               then (80, ''Image manipulation detected ('' @ format_1f conf @ ''% confidence)'')
               else if cls = ''sensitive''
               then (40, ''Sensitive content detected ('' @ format_1f conf @ ''% confidence)'')
               else if cls = ''real_safe''
               then (20, ''Image appears authentic ('' @ format_1f conf @ ''% confidence)'')
               else (50, ''Image analysis inconclusive''))
        in (Some \<lparr>image_risk = risk, image_classification = cls, image_confidence = conf\<rparr>,
            [(''image'', risk, weights ''image_analysis'')], [clause])
      else (None, [], []))"

definition process_fake_news ::
  "fake_news_analysis option
     \<Rightarrow> fake_news_entry option \<times> (string \<times> rat \<times> rat) list \<times> string list"
  where
  "process_fake_news fake_news_analysis =
     (if fake_news_given fake_news_analysis then
        let d = the fake_news_analysis;
            likelihood = get_or (fake_news_likelihood d) 0;
            credibility = get_or (credibility_score d) 50;
            risk = likelihood;
            clause =
              (if 50 < likelihood
               then (if 75 < likelihood then ''High'' else ''Moderate'')
                    @ '' fake news likelihood ('' @ format_1f likelihood @ ''%)''
               else if 60 < credibility
               then ''Content appears credible ('' @ format_1f credibility @ ''%)''
               else ''Text analysis results are uncertain'')
        in (Some \<lparr>fake_news_risk = risk, entry_fake_news_likelihood = likelihood,
                   entry_credibility_score = credibility\<rparr>,
            [(''fake_news'', risk, weights ''fake_news'')], [clause])
      else (None, [], []))"

definition process_sensitive ::
  "sensitive_content option
     \<Rightarrow> sensitive_entry option \<times> (string \<times> rat \<times> rat) list \<times> string list"
  where
  "process_sensitive sensitive_content =
     (if sensitive_given sensitive_content then
        let d = the sensitive_content;
            s = get_or (sensitive_score d) 0;
            risk = s
        in (Some \<lparr>sensitive_risk = risk, score = s\<rparr>,
            [(''sensitive'', risk, weights ''sensitive_content'')],
            (if 50 < s then [''Sensitive content detected ('' @ format_1f s @ ''%)''] else []))
      else (None, [], []))"

text \<open>
  The weighted overall risk before rounding. Both divisions of \<^verbatim>\<open>aggregate\<close> stand in a
  conditional expression that tests the divisor, so they cannot raise.
\<close>

definition weighted_risk :: "(string \<times> rat \<times> rat) list \<Rightarrow> rat" where
  "weighted_risk risk_scores =
     (if risk_scores \<noteq> [] then
        let weighted_sum = sum_list (map (\<lambda>(_, risk, weight). risk * weight) risk_scores);
            total_weight = sum_list (map (\<lambda>(_, _, weight). weight) risk_scores)
        in if 0 < total_weight then weighted_sum / total_weight else 50
      else 50)"

definition confidences :: "image_analysis option \<Rightarrow> fake_news_analysis option \<Rightarrow> rat list" where
  "confidences image_analysis fake_news_analysis =
     (if image_given image_analysis
      then [get_or (image_analysis.confidence (the image_analysis)) 0] else [])
     @ (if fake_news_given fake_news_analysis
        then [100 - get_or (uncertain (the fake_news_analysis)) 50] else [])"

definition overall_confidence :: "rat list \<Rightarrow> rat" where
  "overall_confidence cs = (if cs \<noteq> [] then sum_list cs / of_nat (length cs) else 50)"

fun join :: "string \<Rightarrow> string list \<Rightarrow> string" where
  "join sep [] = []"
| "join sep [x] = x"
| "join sep (x # y # ys) = x @ sep @ join sep (y # ys)"

definition risk_scores ::
  "image_analysis option \<Rightarrow> fake_news_analysis option \<Rightarrow> sensitive_content option
     \<Rightarrow> (string \<times> rat \<times> rat) list"
  where
  "risk_scores image_analysis fake_news_analysis sensitive_content =
     fst (snd (process_image image_analysis))
     @ fst (snd (process_fake_news fake_news_analysis))
     @ fst (snd (process_sensitive sensitive_content))"

definition explanations ::
  "image_analysis option \<Rightarrow> fake_news_analysis option \<Rightarrow> sensitive_content option
     \<Rightarrow> string list"
  where
  "explanations image_analysis fake_news_analysis sensitive_content =
     snd (snd (process_image image_analysis))
     @ snd (snd (process_fake_news fake_news_analysis))
     @ snd (snd (process_sensitive sensitive_content))"

definition aggregate ::
  "image_analysis option \<Rightarrow> fake_news_analysis option \<Rightarrow> sensitive_content option \<Rightarrow> verdict"
  where
  "aggregate image_analysis fake_news_analysis sensitive_content =
     (let results = \<lparr>image = fst (process_image image_analysis),
                      fake_news = fst (process_fake_news fake_news_analysis),
                      sensitive = fst (process_sensitive sensitive_content)\<rparr>;
          expl = explanations image_analysis fake_news_analysis sensitive_content;
          overall = weighted_risk (risk_scores image_analysis fake_news_analysis sensitive_content);
          category = determine_threat_category overall image_analysis fake_news_analysis;
          conf = overall_confidence (confidences image_analysis fake_news_analysis);
          recs = generate_recommendations overall category image_analysis fake_news_analysis
      in \<lparr>overall_trust_risk = round1 overall,
          threat_category = category,
          confidence = round1 conf,
          module_results = results,
          explanation = (if expl \<noteq> [] then join '' | '' expl else ''No analysis data available''),
          recommendations = recs\<rparr>)"

section \<open>Notions used to state the properties\<close>

subsection \<open>Similarity of two strings\<close>

text \<open>
  The number of positions at which two strings differ and the number at which they agree,
  counted over the positions that both strings have.
\<close>

definition mismatched_symbol_count :: "string \<Rightarrow> string \<Rightarrow> nat" where
  "mismatched_symbol_count s1 s2 =
     length (filter (\<lambda>i. s1 ! i \<noteq> s2 ! i) [0..<min (length s1) (length s2)])"

definition matching_position_count :: "string \<Rightarrow> string \<Rightarrow> nat" where
  "matching_position_count s1 s2 =
     length (filter (\<lambda>i. s1 ! i = s2 ! i) [0..<min (length s1) (length s2)])"

text \<open>The value that \<open>string_similarity\<close> returns.\<close>

definition similarity_ratio :: "string \<Rightarrow> string \<Rightarrow> rat" where
  "similarity_ratio s1 s2 =
     (if s1 = s2 then 100
      else of_nat (common_chars s1 s2) / of_nat (max (length s1) (length s2)) * 100)"

subsection \<open>The comparisons of a scan\<close>

text \<open>
  The similarity that an entry reaches against the candidate in the perceptual and in the
  face comparison, and whether the face comparison is made at all.
\<close>

definition perceptual_sim :: "fingerprint \<Rightarrow> protected_entry \<Rightarrow> rat" where
  "perceptual_sim c e =
     (case check_perceptual_similarity (perceptual_hash c) (perceptual_hash (get_fingerprint e)) of
        Inl _ \<Rightarrow> 0 | Inr v \<Rightarrow> v)"

definition face_compared :: "fingerprint \<Rightarrow> protected_entry \<Rightarrow> bool" where
  "face_compared c e =
     (truthy (face_embedding_hash c) \<and> truthy (face_embedding_hash (get_fingerprint e)))"

definition face_sim :: "fingerprint \<Rightarrow> protected_entry \<Rightarrow> rat" where
  "face_sim c e =
     (case check_face_similarity (face_embedding_hash c) (face_embedding_hash (get_fingerprint e)) of
        Inl _ \<Rightarrow> 0 | Inr v \<Rightarrow> v)"

text \<open>
  All comparisons of a scan that no exact match cuts short, in the order in which they are
  made: kind, entry and similarity.
\<close>

type_synonym comparison = "string \<times> protected_entry \<times> rat"

fun comparisons :: "fingerprint \<Rightarrow> protected_entry list \<Rightarrow> comparison list" where
  "comparisons c [] = []"
| "comparisons c (e # es) =
     (''perceptual'', e, perceptual_sim c e)
     # (if face_compared c e then [(''face'', e, face_sim c e)] else [])
     @ comparisons c es"

definition sims :: "comparison list \<Rightarrow> rat list" where
  "sims cs = map (\<lambda>(k, e, s). s) cs"

text \<open>The best similarity found over the whole scan; the scan starts from 0.\<close>

definition best_similarity_found :: "fingerprint \<Rightarrow> protected_entry list \<Rightarrow> rat" where
  "best_similarity_found c reg = Max (set (0 # map (\<lambda>(k, e, s). s) (comparisons c reg)))"

text \<open>The first comparison, in scan order, whose similarity is \<open>m\<close>.\<close>

definition first_attaining :: "rat \<Rightarrow> comparison list \<Rightarrow> comparison option" where
  "first_attaining m cs = find (\<lambda>(k, e, s). s = m) cs"

text \<open>The state of the scan after one comparison, and the state that holds a comparison.\<close>

definition track_comparison :: "best \<Rightarrow> comparison \<Rightarrow> best" where
  "track_comparison b x = (case x of (k, e, s) \<Rightarrow> track b k e s)"

definition tracked :: "best \<Rightarrow> comparison option \<Rightarrow> best" where
  "tracked b x =
     (case x of None \<Rightarrow> b
      | Some (k, e, s) \<Rightarrow> \<lparr>best_match = Some e, best_similarity = s, best_match_type = Some k\<rparr>)"

text \<open>
  An exact match as the code decides it, and the registries without one.
\<close>

definition exact_match_with :: "fingerprint \<Rightarrow> protected_entry \<Rightarrow> bool" where
  "exact_match_with c e = check_exact_match (sha256 c) (sha256 (get_fingerprint e))"

definition no_exact_match :: "fingerprint \<Rightarrow> protected_entry list \<Rightarrow> bool" where
  "no_exact_match c reg = (\<not> list_ex (exact_match_with c) reg)"


text \<open>No comparison can be made with the entry: for each hash, one side lacks it.\<close>

definition incomparable :: "fingerprint \<Rightarrow> protected_entry \<Rightarrow> bool" where
  "incomparable c e =
     (let fp = get_fingerprint e
      in \<not> (truthy (sha256 c) \<and> truthy (sha256 fp))
         \<and> \<not> (truthy (perceptual_hash c) \<and> truthy (perceptual_hash fp))
         \<and> \<not> (truthy (face_embedding_hash c) \<and> truthy (face_embedding_hash fp)))"

subsection \<open>Weighted average, channels and confidences\<close>










subsection \<open>Concrete inputs\<close>

text \<open>Fingerprints and registry entries.\<close>

definition entry_of :: "fingerprint \<Rightarrow> protected_entry" where
  "entry_of fp = \<lparr>fingerprint = Some fp, timestamp = None, protection_flag = True\<rparr>"

definition candidate_20 :: fingerprint where
  "candidate_20 =
     \<lparr>sha256 = Some ''c0ffee'', perceptual_hash = Some ''0123456789abcdef0123'',
      face_embedding_hash = None\<rparr>"

definition entry_17_of_20 :: protected_entry where
  "entry_17_of_20 =
     entry_of \<lparr>sha256 = Some ''decade'', perceptual_hash = Some ''0123456789abcdef0fff'',
               face_embedding_hash = None\<rparr>"

definition candidate_1000 :: fingerprint where
  "candidate_1000 =
     \<lparr>sha256 = Some ''c0ffee'', perceptual_hash = Some (replicate 1000 (CHR ''a'')),
      face_embedding_hash = None\<rparr>"

definition entry_849_of_1000 :: protected_entry where
  "entry_849_of_1000 =
     entry_of \<lparr>sha256 = Some ''decade'',
               perceptual_hash = Some (replicate 849 (CHR ''a'') @ replicate 151 (CHR ''b'')),
               face_embedding_hash = None\<rparr>"

definition candidate_16 :: fingerprint where
  "candidate_16 =
     \<lparr>sha256 = Some ''c0ffee'', perceptual_hash = Some ''0123456789abcdef'',
      face_embedding_hash = Some ''5ca1ab1e''\<rparr>"

definition entry_A :: protected_entry where
  "entry_A =
     entry_of \<lparr>sha256 = Some ''decade'', perceptual_hash = Some ''0123456789abcdef'',
               face_embedding_hash = None\<rparr>"

definition entry_B :: protected_entry where
  "entry_B =
     entry_of \<lparr>sha256 = Some ''facade'', perceptual_hash = Some ''fedcba9876543210'',
               face_embedding_hash = Some ''5ca1ab1e''\<rparr>"

definition entry_both :: protected_entry where
  "entry_both =
     entry_of \<lparr>sha256 = Some ''facade'', perceptual_hash = Some ''0123456789abcdef'',
               face_embedding_hash = Some ''5ca1ab1e''\<rparr>"


definition entry_empty_hash :: protected_entry where
  "entry_empty_hash =
     entry_of \<lparr>sha256 = Some '''', perceptual_hash = None, face_embedding_hash = None\<rparr>"


definition entry_no_hashes :: protected_entry where
  "entry_no_hashes = \<lparr>fingerprint = None, timestamp = None, protection_flag = True\<rparr>"

definition candidate_malformed :: fingerprint where
  "candidate_malformed =
     \<lparr>sha256 = Some ''not a digest'', perceptual_hash = Some ''?!'',
      face_embedding_hash = Some ''''\<rparr>"

text \<open>Arguments of \<^verbatim>\<open>aggregate\<close>; the first three are the empty mappings.\<close>

definition empty_image :: image_analysis where
  "empty_image = \<lparr>classification = None, confidence = None, image_other_keys = []\<rparr>"

definition empty_fake_news :: fake_news_analysis where
  "empty_fake_news =
     \<lparr>fake_news_likelihood = None, credibility_score = None, uncertain = None,
      fake_news_other_keys = []\<rparr>"

definition empty_sensitive :: sensitive_content where
  "empty_sensitive = \<lparr>sensitive_score = None, sensitive_other_keys = []\<rparr>"







section \<open>Properties of the verification engine\<close>

subsection \<open>Counting positions\<close>

lemma zip_as_positions:
  "zip s1 s2 = map (\<lambda>i. (s1 ! i, s2 ! i)) [0..<min (length s1) (length s2)]"
  by (rule nth_equalityI) simp_all

lemma hamming_positions: "hamming s1 s2 = mismatched_symbol_count s1 s2"
  unfolding hamming_def mismatched_symbol_count_def
  by (subst zip_as_positions) (simp add: filter_map comp_def)

lemma common_chars_positions: "common_chars s1 s2 = matching_position_count s1 s2"
  unfolding common_chars_def matching_position_count_def
  by (subst zip_as_positions) (simp add: filter_map comp_def)

lemma hamming_plus_common: "hamming s1 s2 + common_chars s1 s2 = min (length s1) (length s2)"
proof -
  have "length (filter (\<lambda>(c1, c2). c1 \<noteq> c2) (zip s1 s2))
        + length (filter (\<lambda>p. \<not> (case p of (c1, c2) \<Rightarrow> c1 \<noteq> c2)) (zip s1 s2))
        = length (zip s1 s2)"
    by (rule sum_length_filter_compl)
  moreover have "(\<lambda>p. \<not> (case p of (c1, c2) \<Rightarrow> c1 \<noteq> c2)) = (\<lambda>(c1::char, c2). c1 = c2)"
    by auto
  ultimately show ?thesis
    by (simp add: hamming_def common_chars_def)
qed

lemma common_chars_le: "common_chars s1 s2 \<le> max (length s1) (length s2)"
  using hamming_plus_common [of s1 s2] by linarith

lemma hamming_le: "hamming s1 s2 \<le> length s1"
  using hamming_plus_common [of s1 s2] by linarith

lemma common_chars_same: "common_chars s s = length s"
  by (simp add: common_chars_def zip_same_conv_map filter_map comp_def)

lemma hamming_same: "hamming s s = 0"
  by (simp add: hamming_def zip_same_conv_map filter_map comp_def)

subsection \<open>The similarity functions return a value between 0 and 100\<close>

lemma string_similarity_returns: "string_similarity s1 s2 = Inr (similarity_ratio s1 s2)"
proof (cases "s1 = s2")
  case True
  then show ?thesis by (simp add: string_similarity_def similarity_ratio_def)
next
  case False
  then have "max (length s1) (length s2) \<noteq> 0" by auto
  with False show ?thesis
    by (simp add: string_similarity_def similarity_ratio_def truediv_def)
qed

lemma similarity_ratio_range: "0 \<le> similarity_ratio s1 s2 \<and> similarity_ratio s1 s2 \<le> 100"
proof (cases "s1 = s2")
  case True
  then show ?thesis by (simp add: similarity_ratio_def)
next
  case False
  define q :: rat where "q = of_nat (common_chars s1 s2) / of_nat (max (length s1) (length s2))"
  from False have pos: "0 < max (length s1) (length s2)" by (cases s1; cases s2) auto
  have "(of_nat (common_chars s1 s2) :: rat) \<le> of_nat (max (length s1) (length s2))"
    using common_chars_le [of s1 s2] by (simp only: of_nat_le_iff)
  then have "q \<le> 1"
    unfolding q_def using pos by (simp add: divide_le_eq_1)
  moreover have "0 \<le> q"
    unfolding q_def by simp
  moreover have "similarity_ratio s1 s2 = q * 100"
    using False by (simp add: similarity_ratio_def q_def)
  ultimately show ?thesis by linarith
qed

lemma equal_length_ratio:
  assumes "length s1 = length s2" "s1 \<noteq> []"
  shows "similarity_ratio s1 s2 = (1 - of_nat (hamming s1 s2) / of_nat (length s1)) * 100"
proof (cases "s1 = s2")
  case True
  then show ?thesis by (simp add: similarity_ratio_def hamming_same)
next
  case False
  from assms(2) have n: "(of_nat (length s1) :: rat) \<noteq> 0" by simp
  have m: "max (length s1) (length s2) = length s1"
    using assms by simp
  have "hamming s1 s2 + common_chars s1 s2 = length s1"
    using hamming_plus_common [of s1 s2] assms by simp
  then have "(of_nat (common_chars s1 s2) :: rat) = of_nat (length s1) - of_nat (hamming s1 s2)"
    by (metis add_diff_cancel_left' of_nat_add)
  then have "(of_nat (common_chars s1 s2) :: rat) / of_nat (length s1)
             = 1 - of_nat (hamming s1 s2) / of_nat (length s1)"
    using n by (simp add: diff_divide_distrib)
  moreover have "similarity_ratio s1 s2
                 = of_nat (common_chars s1 s2) / of_nat (length s1) * 100"
    using False by (simp only: similarity_ratio_def m if_False)
  ultimately show ?thesis by simp
qed

lemma hamming_ratio_range:
  assumes "s1 \<noteq> []"
  shows "0 \<le> (1 - of_nat (hamming s1 s2) / of_nat (length s1)) * (100::rat)"
    and "(1 - of_nat (hamming s1 s2) / of_nat (length s1)) * (100::rat) \<le> 100"
proof -
  define q :: rat where "q = of_nat (hamming s1 s2) / of_nat (length s1)"
  have "(of_nat (hamming s1 s2) :: rat) \<le> of_nat (length s1)"
    using hamming_le [of s1 s2] by (simp only: of_nat_le_iff)
  then have "q \<le> 1"
    unfolding q_def using assms by (simp add: divide_le_eq_1)
  moreover have "0 \<le> q"
    unfolding q_def by simp
  ultimately have "0 \<le> (1 - q) * 100 \<and> (1 - q) * 100 \<le> 100"
    by simp
  then show "0 \<le> (1 - of_nat (hamming s1 s2) / of_nat (length s1)) * (100::rat)"
    and "(1 - of_nat (hamming s1 s2) / of_nat (length s1)) * (100::rat) \<le> 100"
    unfolding q_def by simp_all
qed

lemma perceptual_sixteen:
  assumes "length s1 = 16" "length s2 = 16"
  shows "check_perceptual_similarity (Some s1) (Some s2)
         = Inr ((1 - of_nat (hamming s1 s2) / of_nat (length s1)) * 100)"
proof -
  define v :: rat where "v = (1 - of_nat (hamming s1 s2) / of_nat (length s1)) * 100"
  from assms have ne: "s1 \<noteq> []" "s2 \<noteq> []" by auto
  have "0 \<le> v"
    unfolding v_def using ne(1) by (rule hamming_ratio_range)
  then have mx: "max 0 v = v" by (rule max_absorb2)
  have "truediv (of_nat (hamming s1 s2)) (of_nat (length s1))
        = Inr (of_nat (hamming s1 s2) / of_nat (length s1))"
    using ne(1) by (simp add: truediv_def)
  then have "check_perceptual_similarity (Some s1) (Some s2) = Inr (max 0 v)"
    unfolding check_perceptual_similarity_def Let_def v_def
    using assms ne by (simp only: truthy_def option.case option.sel sum.case) simp
  with mx show ?thesis by (simp add: v_def)
qed

lemma perceptual_fallback:
  assumes "s1 \<noteq> []" "s2 \<noteq> []" "\<not> (length s1 = 16 \<and> length s2 = 16)"
  shows "check_perceptual_similarity (Some s1) (Some s2) = Inr (similarity_ratio s1 s2)"
  using assms
  by (auto simp: check_perceptual_similarity_def truthy_def Let_def string_similarity_returns)

lemma perceptual_equal_length:
  assumes "s1 \<noteq> []" "length s1 = length s2"
  shows "check_perceptual_similarity (Some s1) (Some s2)
         = Inr ((1 - of_nat (hamming s1 s2) / of_nat (length s1)) * 100)"
proof (cases "length s1 = 16")
  case True
  with assms have "length s2 = 16" by simp
  with True show ?thesis by (rule perceptual_sixteen)
next
  case False
  from assms have "s2 \<noteq> []" by auto
  with False assms show ?thesis
    by (simp add: perceptual_fallback equal_length_ratio)
qed

lemma perceptual_unequal_length:
  assumes "s1 \<noteq> []" "s2 \<noteq> []" "length s1 \<noteq> length s2"
  shows "check_perceptual_similarity (Some s1) (Some s2)
         = Inr (of_nat (common_chars s1 s2) / of_nat (max (length s1) (length s2)) * 100)"
proof -
  from assms(3) have "s1 \<noteq> s2" by auto
  moreover from assms(3) have "\<not> (length s1 = 16 \<and> length s2 = 16)" by auto
  ultimately show ?thesis
    using assms(1,2) by (simp add: perceptual_fallback similarity_ratio_def)
qed

lemma perceptual_missing:
  "\<not> truthy hash1 \<or> \<not> truthy hash2 \<Longrightarrow> check_perceptual_similarity hash1 hash2 = Inr 0"
  by (auto simp: check_perceptual_similarity_def)

lemma perceptual_returns:
  "\<exists>v. check_perceptual_similarity hash1 hash2 = Inr v \<and> 0 \<le> v \<and> v \<le> 100"
proof (cases "truthy hash1 \<and> truthy hash2")
  case False
  then show ?thesis by (auto simp: check_perceptual_similarity_def)
next
  case True
  then obtain s1 s2 where h: "hash1 = Some s1" "hash2 = Some s2" "s1 \<noteq> []" "s2 \<noteq> []"
    by (auto simp: truthy_def split: option.splits)
  show ?thesis
  proof (cases "length s1 = 16 \<and> length s2 = 16")
    case True
    then have eq: "length s1 = length s2" by simp
    from perceptual_equal_length [OF h(3) eq] hamming_ratio_range [OF h(3), of s2] h
    show ?thesis by simp
  next
    case False
    with h have "check_perceptual_similarity hash1 hash2 = Inr (similarity_ratio s1 s2)"
      by (auto simp: check_perceptual_similarity_def truthy_def Let_def string_similarity_returns)
    with similarity_ratio_range [of s1 s2] show ?thesis by simp
  qed
qed

lemma face_returns:
  "\<exists>v. check_face_similarity hash1 hash2 = Inr v \<and> 0 \<le> v \<and> v \<le> 100"
  using similarity_ratio_range
  by (auto simp: check_face_similarity_def string_similarity_returns)

text \<open>
  Claim C5. For two perceptual hashes that are both present (not \<^verbatim>\<open>None\<close>, not empty): when
  they have the same length the similarity is \<open>(1 - mismatched / length) * 100\<close>, otherwise
  it is \<open>matching / max length1 length2 * 100\<close>; when a hash is missing the similarity is
  0. The comparison always returns, with a value between 0 and 100. The counts are taken
  position by position. (In the source the first formula is computed for length 16 only;
  for any other common length the second formula is computed, which has the same value.)
\<close>

theorem perceptual_similarity_formula:
  "(truthy hash1 \<and> truthy hash2 \<and> length (the hash1) = length (the hash2) \<longrightarrow>
      check_perceptual_similarity hash1 hash2
      = Inr ((1 - of_nat (mismatched_symbol_count (the hash1) (the hash2))
                   / of_nat (length (the hash1))) * 100))
   \<and> (truthy hash1 \<and> truthy hash2 \<and> length (the hash1) \<noteq> length (the hash2) \<longrightarrow>
      check_perceptual_similarity hash1 hash2
      = Inr (of_nat (matching_position_count (the hash1) (the hash2))
             / of_nat (max (length (the hash1)) (length (the hash2))) * 100))
   \<and> (\<not> truthy hash1 \<or> \<not> truthy hash2 \<longrightarrow> check_perceptual_similarity hash1 hash2 = Inr 0)
   \<and> (\<exists>v. check_perceptual_similarity hash1 hash2 = Inr v \<and> 0 \<le> v \<and> v \<le> 100)"
proof (intro conjI impI)
  assume a: "truthy hash1 \<and> truthy hash2 \<and> length (the hash1) = length (the hash2)"
  then obtain s1 s2 where h: "hash1 = Some s1" "hash2 = Some s2" "s1 \<noteq> []"
    by (auto simp: truthy_def split: option.splits)
  with a have "length s1 = length s2" by simp
  from perceptual_equal_length [OF h(3) this] h
  show "check_perceptual_similarity hash1 hash2
        = Inr ((1 - of_nat (mismatched_symbol_count (the hash1) (the hash2))
                     / of_nat (length (the hash1))) * 100)"
    by (simp add: hamming_positions)
next
  assume a: "truthy hash1 \<and> truthy hash2 \<and> length (the hash1) \<noteq> length (the hash2)"
  then obtain s1 s2 where h: "hash1 = Some s1" "hash2 = Some s2" "s1 \<noteq> []" "s2 \<noteq> []"
    by (auto simp: truthy_def split: option.splits)
  with a have "length s1 \<noteq> length s2" by simp
  from perceptual_unequal_length [OF h(3,4) this] h
  show "check_perceptual_similarity hash1 hash2
        = Inr (of_nat (matching_position_count (the hash1) (the hash2))
               / of_nat (max (length (the hash1)) (length (the hash2))) * 100)"
    by (simp add: common_chars_positions)
next
  assume "\<not> truthy hash1 \<or> \<not> truthy hash2"
  then show "check_perceptual_similarity hash1 hash2 = Inr 0"
    by (rule perceptual_missing)
next
  show "\<exists>v. check_perceptual_similarity hash1 hash2 = Inr v \<and> 0 \<le> v \<and> v \<le> 100"
    by (rule perceptual_returns)
qed

theorem perceptual_similarity_formula_witness:
  "(truthy (Some ''a1b2c3d4e5f60718'') \<and> truthy (Some ''a1b2c3d4e5f6ffff'')
      \<and> length (the (Some ''a1b2c3d4e5f60718'')) = length (the (Some ''a1b2c3d4e5f6ffff'')))
   \<and> check_perceptual_similarity (Some ''a1b2c3d4e5f60718'') (Some ''a1b2c3d4e5f6ffff'') = Inr 75
   \<and> (truthy (Some ''a1b2'') \<and> truthy (Some ''a1b3'')
      \<and> length (the (Some ''a1b2'')) = length (the (Some ''a1b3'')))
   \<and> check_perceptual_similarity (Some ''a1b2'') (Some ''a1b3'') = Inr 75
   \<and> (truthy (Some ''a1b2'') \<and> truthy (Some ''a1'')
      \<and> length (the (Some ''a1b2'')) \<noteq> length (the (Some ''a1'')))
   \<and> check_perceptual_similarity (Some ''a1b2'') (Some ''a1'') = Inr 50
   \<and> \<not> truthy None
   \<and> check_perceptual_similarity (Some ''a1b2'') None = Inr 0"
proof -
  have h0: "truthy (Some ''a1b2c3d4e5f60718'') \<and> truthy (Some ''a1b2c3d4e5f6ffff'')
      \<and> length (the (Some ''a1b2c3d4e5f60718'')) = length (the (Some ''a1b2c3d4e5f6ffff''))"
    by (simp add: truthy_def)
  have h1: "truthy (Some ''a1b2'') \<and> truthy (Some ''a1b3'')
      \<and> length (the (Some ''a1b2'')) = length (the (Some ''a1b3''))"
    by (simp add: truthy_def)
  have h2: "truthy (Some ''a1b2'') \<and> truthy (Some ''a1'')
      \<and> length (the (Some ''a1b2'')) \<noteq> length (the (Some ''a1''))"
    by (simp add: truthy_def)
  have h3: "\<not> truthy None"
    by (simp add: truthy_def)
  have c0: "mismatched_symbol_count ''a1b2c3d4e5f60718'' ''a1b2c3d4e5f6ffff'' = 4"
    by code_simp
  have c1: "mismatched_symbol_count ''a1b2'' ''a1b3'' = 1"
    by code_simp
  have c2: "matching_position_count ''a1b2'' ''a1'' = 2"
    by code_simp
  from perceptual_similarity_formula [of "Some ''a1b2c3d4e5f60718''" "Some ''a1b2c3d4e5f6ffff''"]
    h0 c0
  have r0: "check_perceptual_similarity (Some ''a1b2c3d4e5f60718'') (Some ''a1b2c3d4e5f6ffff'')
            = Inr 75"
    by simp
  from perceptual_similarity_formula [of "Some ''a1b2''" "Some ''a1b3''"] h1 c1
  have r1: "check_perceptual_similarity (Some ''a1b2'') (Some ''a1b3'') = Inr 75"
    by simp
  from perceptual_similarity_formula [of "Some ''a1b2''" "Some ''a1''"] h2 c2
  have r2: "check_perceptual_similarity (Some ''a1b2'') (Some ''a1'') = Inr 50"
    by simp
  from perceptual_similarity_formula [of "Some ''a1b2''" None] h3
  have r3: "check_perceptual_similarity (Some ''a1b2'') None = Inr 0"
    by blast
  from h0 h1 h2 h3 r0 r1 r2 r3 show ?thesis by blast
qed

subsection \<open>The scan\<close>

lemma perceptual_sim_eq:
  "check_perceptual_similarity (perceptual_hash c) (perceptual_hash (get_fingerprint e))
   = Inr (perceptual_sim c e)"
  using perceptual_returns [of "perceptual_hash c" "perceptual_hash (get_fingerprint e)"]
  by (auto simp: perceptual_sim_def)

lemma face_sim_eq:
  "check_face_similarity (face_embedding_hash c) (face_embedding_hash (get_fingerprint e))
   = Inr (face_sim c e)"
  using face_returns [of "face_embedding_hash c" "face_embedding_hash (get_fingerprint e)"]
  by (auto simp: face_sim_def)

lemma scan_entry_exact:
  "exact_match_with c e \<Longrightarrow> scan_entry c b e = Inr (Return (exact_decision e))"
  by (simp add: scan_entry_def exact_match_with_def Let_def)

lemma scan_entry_continue:
  "\<not> exact_match_with c e \<Longrightarrow>
   scan_entry c b e = Inr (Continue (foldl track_comparison b (comparisons c [e])))"
  by (simp add: scan_entry_def exact_match_with_def Let_def perceptual_sim_eq face_sim_eq
      face_compared_def track_comparison_def)

lemma comparisons_Cons: "comparisons c (e # es) = comparisons c [e] @ comparisons c es"
  by simp

lemma scan_tracks:
  "no_exact_match c reg \<Longrightarrow>
   scan c b reg = Inr (Continue (foldl track_comparison b (comparisons c reg)))"
proof (induction reg arbitrary: b)
  case Nil
  then show ?case by simp
next
  case (Cons e es)
  from Cons.prems have ne: "\<not> exact_match_with c e" and rest: "no_exact_match c es"
    by (simp_all add: no_exact_match_def)
  have "scan c b (e # es) = scan c (foldl track_comparison b (comparisons c [e])) es"
    by (simp add: scan_entry_continue [OF ne] del: comparisons.simps)
  also have "\<dots> = Inr (Continue (foldl track_comparison
                       (foldl track_comparison b (comparisons c [e])) (comparisons c es)))"
    by (rule Cons.IH [OF rest])
  also have "\<dots> = Inr (Continue (foldl track_comparison b (comparisons c (e # es))))"
    by (subst (2) comparisons_Cons) (simp only: foldl_append)
  finally show ?case .
qed


lemma track_similarity:
  "best_similarity (foldl track_comparison b cs) = Max (set (best_similarity b # sims cs))"
proof (induction cs arbitrary: b)
  case Nil
  then show ?case by (simp add: sims_def)
next
  case (Cons x xs)
  obtain k e s where x: "x = (k, e, s)" by (cases x)
  have step: "best_similarity (track_comparison b x) = max (best_similarity b) s"
    by (simp add: track_comparison_def track_def x)
  have "Max (set (best_similarity b # sims (x # xs)))
        = Max (insert (best_similarity b) (insert s (set (sims xs))))"
    by (simp add: sims_def x)
  also have "\<dots> = Max (insert (max (best_similarity b) s) (set (sims xs)))"
    by (cases "set (sims xs) = {}") (simp_all add: max.assoc)
  finally show ?case
    using Cons.IH [of "track_comparison b x"] by (simp add: step)
qed

lemma best_step:
  "Max (set (best_similarity b # sims (x # xs)))
   = Max (set (best_similarity (track_comparison b x) # sims xs))"
  using track_similarity [of b "x # xs"] track_similarity [of "track_comparison b x" xs]
  by simp

lemma first_attaining_exists:
  assumes "b0 < Max (set (b0 # sims cs))"
  shows "\<exists>k e. first_attaining (Max (set (b0 # sims cs))) cs = Some (k, e, Max (set (b0 # sims cs)))"
proof -
  define m where "m = Max (set (b0 # sims cs))"
  have "m \<in> set (b0 # sims cs)"
    unfolding m_def by (rule Max_in) simp_all
  with assms have "m \<in> set (sims cs)"
    unfolding m_def [symmetric] by auto
  then obtain x where "x \<in> set cs" "(\<lambda>(k, e, s). s = m) x"
    by (auto simp: sims_def)
  then have "find (\<lambda>(k, e, s). s = m) cs \<noteq> None"
    by (auto simp: find_None_iff)
  then obtain y where y: "find (\<lambda>(k, e, s). s = m) cs = Some y" by auto
  then have "(\<lambda>(k, e, s). s = m) y"
    by (auto simp: find_Some_iff)
  with y show ?thesis
    unfolding m_def [symmetric] first_attaining_def by (cases y) auto
qed

lemma track_first:
  "foldl track_comparison b cs =
     (if best_similarity b < Max (set (best_similarity b # sims cs))
      then tracked b (first_attaining (Max (set (best_similarity b # sims cs))) cs)
      else b)"
proof (induction cs arbitrary: b)
  case Nil
  then show ?case by (simp add: sims_def)
next
  case (Cons x xs)
  obtain k e s where x: "x = (k, e, s)" by (cases x)
  define m where "m = Max (set (best_similarity b # sims (x # xs)))"
  define b' where "b' = track_comparison b x"
  have m': "m = Max (set (best_similarity b' # sims xs))"
    unfolding m_def b'_def by (rule best_step)
  have ih: "foldl track_comparison b' xs =
     (if best_similarity b' < m then tracked b' (first_attaining m xs) else b')"
    unfolding m' by (rule Cons.IH)
  have fold: "foldl track_comparison b (x # xs) = foldl track_comparison b' xs"
    by (simp add: b'_def)
  have ge: "best_similarity b' \<le> m"
    unfolding m' by simp
  have first: "first_attaining m (x # xs) = (if s = m then Some x else first_attaining m xs)"
    by (simp add: first_attaining_def x)
  have tracked_indep: "tracked b' y = tracked b y" if "y \<noteq> None" for y
    using that by (cases y) (auto simp: tracked_def)
  show ?case
  proof (cases "best_similarity b < s")
    case True
    then have b'_eq: "b' = \<lparr>best_match = Some e, best_similarity = s, best_match_type = Some k\<rparr>"
      by (simp add: b'_def track_comparison_def track_def x)
    then have bs': "best_similarity b' = s" by simp
    from True ge bs' have lt: "best_similarity b < m" by simp
    show ?thesis
    proof (cases "s < m")
      case True
      with bs' have "best_similarity b' < Max (set (best_similarity b' # sims xs))"
        unfolding m' by simp
      from first_attaining_exists [OF this]
      have "first_attaining m xs \<noteq> None"
        unfolding m' by auto
      with True have "tracked b' (first_attaining m xs) = tracked b (first_attaining m (x # xs))"
        using first tracked_indep by simp
      with True lt ih fold bs' show ?thesis
        unfolding m_def [symmetric] by simp
    next
      case False
      with ge bs' have "s = m" by simp
      then have "tracked b (first_attaining m (x # xs)) = b'"
        using first by (simp add: tracked_def x b'_eq)
      with False lt ih fold bs' show ?thesis
        unfolding m_def [symmetric] by simp
    qed
  next
    case False
    then have b'_eq: "b' = b"
      by (simp add: b'_def track_comparison_def track_def x)
    show ?thesis
    proof (cases "best_similarity b < m")
      case True
      with False have "s \<noteq> m" by auto
      with first have "first_attaining m (x # xs) = first_attaining m xs" by simp
      with True ih fold b'_eq show ?thesis
        unfolding m_def [symmetric] by simp
    next
      case False
      with ih fold b'_eq show ?thesis
        unfolding m_def [symmetric] by simp
    qed
  qed
qed

lemma scan_entry_returns: "\<exists>r. scan_entry c b e = Inr r"
  by (cases "exact_match_with c e") (simp_all add: scan_entry_exact scan_entry_continue)

lemma scan_returns: "\<exists>r. scan c b reg = Inr r"
proof (induction reg arbitrary: b)
  case Nil
  then show ?case by simp
next
  case (Cons e es)
  obtain r where r: "scan_entry c b e = Inr r"
    using scan_entry_returns by blast
  show ?case
  proof (cases r)
    case (Return d)
    with r show ?thesis by simp
  next
    case (Continue b')
    with r Cons.IH [of b'] show ?thesis by simp
  qed
qed

lemma verify_returns: "\<exists>d. verify c reg = Inr d"
proof -
  obtain r where "scan c initial_best reg = Inr r"
    using scan_returns by blast
  then show ?thesis
    by (cases r) (simp_all add: verify_def)
qed



lemma verify_no_exact:
  assumes "no_exact_match c reg" "reg \<noteq> []"
  shows "verify c reg
         = Inr (final_decision (foldl track_comparison initial_best (comparisons c reg)))"
  using assms scan_tracks [OF assms(1), of initial_best] by (simp add: verify_def)

lemma best_found_eq:
  "best_similarity (foldl track_comparison initial_best (comparisons c reg))
   = best_similarity_found c reg"
  by (simp add: track_similarity best_similarity_found_def sims_def initial_best_def)

lemma perceptual_sim_range: "0 \<le> perceptual_sim c e \<and> perceptual_sim c e \<le> 100"
  using perceptual_returns [of "perceptual_hash c" "perceptual_hash (get_fingerprint e)"]
  by (auto simp: perceptual_sim_def)

lemma face_sim_range: "0 \<le> face_sim c e \<and> face_sim c e \<le> 100"
  using face_returns [of "face_embedding_hash c" "face_embedding_hash (get_fingerprint e)"]
  by (auto simp: face_sim_def)

lemma comparison_range:
  "(k, e, x) \<in> set (comparisons c reg) \<Longrightarrow> 0 \<le> x \<and> x \<le> 100"
proof (induction reg)
  case Nil
  then show ?case by simp
next
  case (Cons a reg)
  then show ?case
    using perceptual_sim_range [of c a] face_sim_range [of c a]
    by (auto split: if_splits)
qed

lemma comparisons_range: "x \<in> set (sims (comparisons c reg)) \<Longrightarrow> 0 \<le> x \<and> x \<le> 100"
  using comparison_range by (fastforce simp: sims_def)

lemma best_similarity_found_le: "best_similarity_found c reg \<le> 100"
proof -
  have "\<forall>x \<in> set (0 # sims (comparisons c reg)). x \<le> 100"
    using comparisons_range by auto
  then show ?thesis
    unfolding best_similarity_found_def sims_def by (subst Max_le_iff) simp_all
qed

lemma scan_entry_incomparable:
  assumes "incomparable c e" "0 \<le> best_similarity b"
  shows "scan_entry c b e = Inr (Continue b)"
proof -
  from assms(1) have ex: "\<not> check_exact_match (sha256 c) (sha256 (get_fingerprint e))"
    by (auto simp: incomparable_def Let_def check_exact_match_def)
  from assms(1) have "\<not> truthy (perceptual_hash c) \<or> \<not> truthy (perceptual_hash (get_fingerprint e))"
    by (auto simp: incomparable_def Let_def)
  then have p: "check_perceptual_similarity (perceptual_hash c) (perceptual_hash (get_fingerprint e))
                = Inr 0"
    by (rule perceptual_missing)
  from assms(1) have f: "\<not> (truthy (face_embedding_hash c)
                            \<and> truthy (face_embedding_hash (get_fingerprint e)))"
    by (auto simp: incomparable_def Let_def)
  from assms(2) have t: "track b ''perceptual'' e 0 = b"
    by (simp add: track_def)
  from ex p f t show ?thesis
    by (auto simp: scan_entry_def Let_def)
qed

lemma scan_entry_mono:
  assumes "scan_entry c b e = Inr (Continue b')"
  shows "best_similarity b \<le> best_similarity b'"
proof (cases "exact_match_with c e")
  case True
  with assms show ?thesis by (simp add: scan_entry_exact)
next
  case False
  with assms have "b' = foldl track_comparison b (comparisons c [e])"
    by (simp add: scan_entry_continue del: comparisons.simps)
  then show ?thesis
    by (simp only: track_similarity) simp
qed

lemma scan_skip:
  assumes "incomparable c e" "0 \<le> best_similarity b"
  shows "scan c b (xs @ e # ys) = scan c b (xs @ ys)"
  using assms(2)
proof (induction xs arbitrary: b)
  case Nil
  then show ?case by (simp add: scan_entry_incomparable [OF assms(1)])
next
  case (Cons x xs)
  obtain r where r: "scan_entry c b x = Inr r"
    using scan_entry_returns by blast
  show ?case
  proof (cases r)
    case (Return d)
    with r show ?thesis by simp
  next
    case (Continue b')
    with r have "best_similarity b \<le> best_similarity b'"
      by (auto dest: scan_entry_mono)
    with Cons.prems have "0 \<le> best_similarity b'" by simp
    from Cons.IH [OF this] r Continue show ?thesis by simp
  qed
qed

lemma verify_skip:
  assumes "incomparable c e" "xs @ ys \<noteq> []"
  shows "verify c (xs @ e # ys) = verify c (xs @ ys)"
proof -
  have "scan c initial_best (xs @ e # ys) = scan c initial_best (xs @ ys)"
    using assms(1) by (rule scan_skip) (simp add: initial_best_def)
  with assms(2) show ?thesis
    by (simp only: verify_def) simp
qed

lemma first_best_general:
  assumes "no_exact_match c reg" "85 \<le> best_similarity_found c reg"
  shows "\<exists>k e d. first_attaining (best_similarity_found c reg) (comparisons c reg)
                   = Some (k, e, best_similarity_found c reg)
           \<and> verify c reg = Inr d \<and> match_found d \<and> match_type d = Some k
           \<and> similarity d = best_similarity_found c reg \<and> matched_fingerprint d = Some e"
proof -
  define m where "m = best_similarity_found c reg"
  define cs where "cs = comparisons c reg"
  define b where "b = foldl track_comparison initial_best cs"
  have m_eq: "m = Max (set (best_similarity initial_best # sims cs))"
    by (simp add: m_def cs_def best_similarity_found_def sims_def initial_best_def)
  from assms(2) have pos: "best_similarity initial_best < m"
    by (simp add: m_def initial_best_def)
  have "reg \<noteq> []"
    using assms(2) by (auto simp: best_similarity_found_def)
  with assms(1) have v: "verify c reg = Inr (final_decision b)"
    unfolding b_def cs_def by (rule verify_no_exact)
  from pos obtain k e where first: "first_attaining m cs = Some (k, e, m)"
    unfolding m_eq using first_attaining_exists by blast
  have "b = tracked initial_best (first_attaining m cs)"
    unfolding b_def using pos track_first [of initial_best cs] by (simp add: m_eq)
  with first have b_eq: "b = \<lparr>best_match = Some e, best_similarity = m, best_match_type = Some k\<rparr>"
    by (simp add: tracked_def)
  from assms(2) have "perceptual_similarity_threshold * 100 \<le> m"
    by (simp add: m_def perceptual_similarity_threshold_def)
  with b_eq have "match_found (final_decision b) \<and> match_type (final_decision b) = Some k
      \<and> similarity (final_decision b) = m \<and> matched_fingerprint (final_decision b) = Some e"
    by (simp add: final_decision_def)
  with v first show ?thesis
    unfolding m_def cs_def by blast
qed

subsection \<open>The acceptance threshold\<close>

lemma hamming_849_of_1000:
  "hamming (replicate 1000 (CHR ''a'')) (replicate 849 (CHR ''a'') @ replicate 151 (CHR ''b''))
   = 151"
proof -
  have "replicate 1000 (CHR ''a'') = replicate 849 (CHR ''a'') @ replicate 151 (CHR ''a'')"
    by (simp add: replicate_add [symmetric])
  then show ?thesis
    by (simp add: hamming_def)
qed

lemma best_849_of_1000: "best_similarity_found candidate_1000 [entry_849_of_1000] = 849 / 10"
proof -
  have "check_perceptual_similarity (Some (replicate 1000 (CHR ''a'')))
          (Some (replicate 849 (CHR ''a'') @ replicate 151 (CHR ''b''))) = Inr (849 / 10)"
    by (subst perceptual_equal_length) (simp_all add: hamming_849_of_1000)
  then show ?thesis
    by (simp add: best_similarity_found_def perceptual_sim_def face_compared_def truthy_def
        candidate_1000_def entry_849_of_1000_def entry_of_def get_fingerprint_def)
qed

lemma no_exact_849_of_1000: "no_exact_match candidate_1000 [entry_849_of_1000]"
  by (simp add: no_exact_match_def exact_match_with_def candidate_1000_def entry_849_of_1000_def
      entry_of_def get_fingerprint_def check_exact_match_def truthy_def lower_def lower_char_def)

text \<open>
  Claim C3. When no entry matches exactly, \<^verbatim>\<open>verify\<close> returns, and it returns
  \<^verbatim>\<open>match_found = True\<close> exactly when the best similarity found over the whole scan (the
  greatest of 0 and the similarities of all comparisons made) is at least 85; the
  similarity it returns is that best similarity in both cases. So a best similarity of
  exactly 85 is a match and one of 84.9 is not.
\<close>

theorem perceptual_threshold:
  assumes "no_exact_match c reg"
  shows "\<exists>d. verify c reg = Inr d
           \<and> (match_found d \<longleftrightarrow> 85 \<le> best_similarity_found c reg)
           \<and> similarity d = best_similarity_found c reg"
proof (cases "reg = []")
  case True
  then show ?thesis
    by (simp add: verify_def no_fingerprints_decision_def best_similarity_found_def)
next
  case False
  define b where "b = foldl track_comparison initial_best (comparisons c reg)"
  have v: "verify c reg = Inr (final_decision b)"
    unfolding b_def using assms False by (rule verify_no_exact)
  have bs: "best_similarity b = best_similarity_found c reg"
    unfolding b_def by (rule best_found_eq)
  have "match_found (final_decision b) \<longleftrightarrow> 85 \<le> best_similarity b"
    by (simp add: final_decision_def perceptual_similarity_threshold_def)
  moreover have "similarity (final_decision b) = best_similarity b"
    by (simp add: final_decision_def)
  ultimately show ?thesis
    using v bs by simp
qed

theorem perceptual_threshold_witness:
  "no_exact_match candidate_20 [entry_17_of_20]
   \<and> best_similarity_found candidate_20 [entry_17_of_20] = 85
   \<and> (\<exists>d. verify candidate_20 [entry_17_of_20] = Inr d \<and> match_found d \<and> similarity d = 85)
   \<and> no_exact_match candidate_1000 [entry_849_of_1000]
   \<and> best_similarity_found candidate_1000 [entry_849_of_1000] = 849 / 10
   \<and> (\<exists>d. verify candidate_1000 [entry_849_of_1000] = Inr d \<and> \<not> match_found d
          \<and> similarity d = 849 / 10)"
proof -
  have n1: "no_exact_match candidate_20 [entry_17_of_20]"
    by code_simp
  have b1: "best_similarity_found candidate_20 [entry_17_of_20] = 85"
    by code_simp
  from perceptual_threshold [OF n1] b1
  have r1: "\<exists>d. verify candidate_20 [entry_17_of_20] = Inr d \<and> match_found d \<and> similarity d = 85"
    by auto
  from perceptual_threshold [OF no_exact_849_of_1000] best_849_of_1000
  have r2: "\<exists>d. verify candidate_1000 [entry_849_of_1000] = Inr d \<and> \<not> match_found d
              \<and> similarity d = 849 / 10"
    by auto
  from n1 b1 r1 no_exact_849_of_1000 best_849_of_1000 r2 show ?thesis
    by blast
qed

subsection \<open>Ties\<close>

lemma perceptual_sim_same:
  assumes "truthy (perceptual_hash c)" "perceptual_hash (get_fingerprint e) = perceptual_hash c"
  shows "perceptual_sim c e = 100"
proof -
  from assms(1) obtain p where p: "perceptual_hash c = Some p" "p \<noteq> []"
    by (auto simp: truthy_def split: option.splits)
  have "check_perceptual_similarity (Some p) (Some p) = Inr 100"
    using p(2) by (subst perceptual_equal_length) (simp_all add: hamming_same)
  with p assms(2) show ?thesis
    by (simp add: perceptual_sim_def)
qed

lemma scenario_first_best:
  assumes "no_exact_match c [A, B]"
    and "truthy (perceptual_hash c)"
    and "perceptual_hash (get_fingerprint A) = perceptual_hash c"
  shows "\<exists>d. verify c [A, B] = Inr d \<and> match_found d \<and> similarity d = 100
           \<and> match_type d = Some ''perceptual'' \<and> matched_fingerprint d = Some A"
proof -
  have pa: "perceptual_sim c A = 100"
    using assms(2,3) by (rule perceptual_sim_same)
  have "100 \<in> set (0 # map (\<lambda>(k, e, s). s) (comparisons c [A, B]))"
    by (simp add: pa)
  then have "100 \<le> best_similarity_found c [A, B]"
    unfolding best_similarity_found_def by (intro Max_ge) simp_all
  with best_similarity_found_le [of c "[A, B]"]
  have best: "best_similarity_found c [A, B] = 100"
    by simp
  have first: "first_attaining 100 (comparisons c [A, B]) = Some (''perceptual'', A, 100)"
    by (simp add: first_attaining_def pa)
  from first_best_general [OF assms(1)] best first show ?thesis
    by auto
qed

text \<open>
  Claim C4. When no entry matches exactly, the comparisons are made in scan order (for
  each entry of the registry in turn, the perceptual comparison, then the face comparison
  if both sides have a face hash), and the scan keeps the first comparison that attains
  the greatest similarity: a later comparison replaces the kept one only when it is
  strictly greater. When that greatest similarity is at least 85, \<^verbatim>\<open>verify\<close> reports this
  first comparison: its kind, its entry and its similarity. In the scenario of the claim
  (the perceptual hash of entry A equals the candidate's, the face hash of a later entry B
  equals the candidate's) the result is a perceptual match with entry A at similarity 100.
\<close>

theorem first_best_reported:
  "(no_exact_match c reg \<longrightarrow>
      scan c initial_best reg
      = Inr (Continue
               (if 0 < best_similarity_found c reg
                then tracked initial_best
                       (first_attaining (best_similarity_found c reg) (comparisons c reg))
                else initial_best)))
   \<and> (no_exact_match c reg \<and> 85 \<le> best_similarity_found c reg \<longrightarrow>
        (\<exists>k e d. first_attaining (best_similarity_found c reg) (comparisons c reg)
                   = Some (k, e, best_similarity_found c reg)
           \<and> verify c reg = Inr d \<and> match_found d \<and> match_type d = Some k
           \<and> similarity d = best_similarity_found c reg \<and> matched_fingerprint d = Some e))
   \<and> (no_exact_match c [A, B] \<and> truthy (perceptual_hash c)
        \<and> perceptual_hash (get_fingerprint A) = perceptual_hash c
        \<and> truthy (face_embedding_hash c)
        \<and> face_embedding_hash (get_fingerprint B) = face_embedding_hash c \<longrightarrow>
        (\<exists>d. verify c [A, B] = Inr d \<and> match_found d \<and> similarity d = 100
           \<and> match_type d = Some ''perceptual'' \<and> matched_fingerprint d = Some A))"
proof (intro conjI impI)
  assume n: "no_exact_match c reg"
  have m: "best_similarity_found c reg
           = Max (set (best_similarity initial_best # sims (comparisons c reg)))"
    by (simp add: best_similarity_found_def sims_def initial_best_def)
  have "foldl track_comparison initial_best (comparisons c reg)
        = (if 0 < best_similarity_found c reg
           then tracked initial_best
                  (first_attaining (best_similarity_found c reg) (comparisons c reg))
           else initial_best)"
    unfolding m by (subst track_first) (simp add: initial_best_def)
  with scan_tracks [OF n, of initial_best]
  show "scan c initial_best reg
        = Inr (Continue
                 (if 0 < best_similarity_found c reg
                  then tracked initial_best
                         (first_attaining (best_similarity_found c reg) (comparisons c reg))
                  else initial_best))"
    by simp
next
  assume "no_exact_match c reg \<and> 85 \<le> best_similarity_found c reg"
  then show "\<exists>k e d. first_attaining (best_similarity_found c reg) (comparisons c reg)
                       = Some (k, e, best_similarity_found c reg)
               \<and> verify c reg = Inr d \<and> match_found d \<and> match_type d = Some k
               \<and> similarity d = best_similarity_found c reg \<and> matched_fingerprint d = Some e"
    using first_best_general by blast
next
  assume "no_exact_match c [A, B] \<and> truthy (perceptual_hash c)
        \<and> perceptual_hash (get_fingerprint A) = perceptual_hash c
        \<and> truthy (face_embedding_hash c)
        \<and> face_embedding_hash (get_fingerprint B) = face_embedding_hash c"
  then show "\<exists>d. verify c [A, B] = Inr d \<and> match_found d \<and> similarity d = 100
               \<and> match_type d = Some ''perceptual'' \<and> matched_fingerprint d = Some A"
    using scenario_first_best by blast
qed

theorem first_best_reported_witness:
  "no_exact_match candidate_16 [entry_A, entry_B]
   \<and> truthy (perceptual_hash candidate_16)
   \<and> perceptual_hash (get_fingerprint entry_A) = perceptual_hash candidate_16
   \<and> truthy (face_embedding_hash candidate_16)
   \<and> face_embedding_hash (get_fingerprint entry_B) = face_embedding_hash candidate_16
   \<and> comparisons candidate_16 [entry_A, entry_B]
       = [(''perceptual'', entry_A, 100), (''perceptual'', entry_B, 0), (''face'', entry_B, 100)]
   \<and> best_similarity_found candidate_16 [entry_A, entry_B] = 100
   \<and> (\<exists>d. verify candidate_16 [entry_A, entry_B] = Inr d \<and> match_found d \<and> similarity d = 100
          \<and> match_type d = Some ''perceptual'' \<and> matched_fingerprint d = Some entry_A)
   \<and> scan candidate_16 initial_best [entry_A, entry_B]
       = Inr (Continue \<lparr>best_match = Some entry_A, best_similarity = 100,
                         best_match_type = Some ''perceptual''\<rparr>)
   \<and> no_exact_match candidate_16 [entry_both]
   \<and> comparisons candidate_16 [entry_both]
       = [(''perceptual'', entry_both, 100), (''face'', entry_both, 100)]
   \<and> scan candidate_16 initial_best [entry_both]
       = Inr (Continue \<lparr>best_match = Some entry_both, best_similarity = 100,
                         best_match_type = Some ''perceptual''\<rparr>)"
proof -
  have n: "no_exact_match candidate_16 [entry_A, entry_B]"
    by code_simp
  have h: "truthy (perceptual_hash candidate_16)
      \<and> perceptual_hash (get_fingerprint entry_A) = perceptual_hash candidate_16
      \<and> truthy (face_embedding_hash candidate_16)
      \<and> face_embedding_hash (get_fingerprint entry_B) = face_embedding_hash candidate_16"
    by code_simp
  have cs: "comparisons candidate_16 [entry_A, entry_B]
       = [(''perceptual'', entry_A, 100), (''perceptual'', entry_B, 0), (''face'', entry_B, 100)]"
    by code_simp
  have b: "best_similarity_found candidate_16 [entry_A, entry_B] = 100"
    by code_simp
  have f: "first_attaining 100 [(''perceptual'', entry_A, 100), (''perceptual'', entry_B, 0),
             (''face'', entry_B, 100)] = Some (''perceptual'', entry_A, 100)"
    by (simp add: first_attaining_def)
  note t = first_best_reported [of candidate_16 "[entry_A, entry_B]" entry_A entry_B]
  from t n h
  have r: "\<exists>d. verify candidate_16 [entry_A, entry_B] = Inr d \<and> match_found d
             \<and> similarity d = 100 \<and> match_type d = Some ''perceptual''
             \<and> matched_fingerprint d = Some entry_A"
    by blast
  from t n b cs f
  have s: "scan candidate_16 initial_best [entry_A, entry_B]
       = Inr (Continue \<lparr>best_match = Some entry_A, best_similarity = 100,
                         best_match_type = Some ''perceptual''\<rparr>)"
    by (simp add: tracked_def)
  have n': "no_exact_match candidate_16 [entry_both]"
    by code_simp
  have cs': "comparisons candidate_16 [entry_both]
       = [(''perceptual'', entry_both, 100), (''face'', entry_both, 100)]"
    by code_simp
  have b': "best_similarity_found candidate_16 [entry_both] = 100"
    by code_simp
  have f': "first_attaining 100 [(''perceptual'', entry_both, 100), (''face'', entry_both, 100)]
            = Some (''perceptual'', entry_both, 100)"
    by (simp add: first_attaining_def)
  from first_best_reported [of candidate_16 "[entry_both]" entry_A entry_B] n' b' cs' f'
  have s': "scan candidate_16 initial_best [entry_both]
       = Inr (Continue \<lparr>best_match = Some entry_both, best_similarity = 100,
                         best_match_type = Some ''perceptual''\<rparr>)"
    by (simp add: tracked_def)
  from n h cs b r s n' cs' s' show ?thesis
    by blast
qed

subsection \<open>Exact matches\<close>





subsection \<open>No exception\<close>

lemma face_missing:
  "\<not> (truthy hash1 \<and> truthy hash2) \<Longrightarrow> check_face_similarity hash1 hash2 = Inr 0"
  by (auto simp: check_face_similarity_def)

lemma exact_missing:
  "\<not> (truthy hash1 \<and> truthy hash2) \<Longrightarrow> \<not> check_exact_match hash1 hash2"
  by (auto simp: check_exact_match_def)

text \<open>
  Claim C9. \<^verbatim>\<open>verify\<close> raises no exception, whatever strings the hashes are and whichever
  of them are missing: it always returns a decision, and so do the perceptual and the
  face comparison. A comparison with a missing hash (\<^verbatim>\<open>None\<close> or empty) on either side
  gives similarity 0 (no exact match), and an entry with which no comparison can be made
  does not change the result of the scan, which goes on with the other entries. For the
  empty registry the decision is \<^verbatim>\<open>match_found = False\<close>, similarity 0 and the message
  \<^verbatim>\<open>No protected fingerprints in database\<close>.
\<close>

theorem verify_never_raises:
  "(\<exists>d. verify c reg = Inr d)
   \<and> (\<exists>v. check_perceptual_similarity hash1 hash2 = Inr v)
   \<and> (\<exists>v. check_face_similarity hash1 hash2 = Inr v)
   \<and> (\<not> (truthy hash1 \<and> truthy hash2) \<longrightarrow>
        check_perceptual_similarity hash1 hash2 = Inr 0
        \<and> check_face_similarity hash1 hash2 = Inr 0
        \<and> \<not> check_exact_match hash1 hash2)
   \<and> (incomparable c e \<and> xs @ ys \<noteq> [] \<longrightarrow> verify c (xs @ e # ys) = verify c (xs @ ys))
   \<and> verify c []
       = Inr \<lparr>match_found = False, match_type = None, similarity = 0,
              matched_fingerprint = None,
              details = [(''message'', ''No protected fingerprints in database'')]\<rparr>"
proof (intro conjI impI)
  show "\<exists>d. verify c reg = Inr d"
    by (rule verify_returns)
  show "\<exists>v. check_perceptual_similarity hash1 hash2 = Inr v"
    using perceptual_returns [of hash1 hash2] by blast
  show "\<exists>v. check_face_similarity hash1 hash2 = Inr v"
    using face_returns [of hash1 hash2] by blast
  show "verify c []
       = Inr \<lparr>match_found = False, match_type = None, similarity = 0,
              matched_fingerprint = None,
              details = [(''message'', ''No protected fingerprints in database'')]\<rparr>"
    by (simp add: verify_def no_fingerprints_decision_def)
next
  assume "\<not> (truthy hash1 \<and> truthy hash2)"
  then show "check_perceptual_similarity hash1 hash2 = Inr 0"
    by (intro perceptual_missing) simp
next
  assume "\<not> (truthy hash1 \<and> truthy hash2)"
  then show "check_face_similarity hash1 hash2 = Inr 0"
    by (rule face_missing)
next
  assume "\<not> (truthy hash1 \<and> truthy hash2)"
  then show "\<not> check_exact_match hash1 hash2"
    by (rule exact_missing)
next
  assume "incomparable c e \<and> xs @ ys \<noteq> []"
  then show "verify c (xs @ e # ys) = verify c (xs @ ys)"
    using verify_skip by blast
qed

theorem verify_never_raises_witness:
  "\<not> (truthy (Some ''0123456789abcdef'') \<and> truthy (Some ''''))
   \<and> check_perceptual_similarity (Some ''0123456789abcdef'') (Some '''') = Inr 0
   \<and> check_face_similarity (Some ''0123456789abcdef'') (Some '''') = Inr 0
   \<and> incomparable candidate_16 entry_no_hashes
   \<and> [entry_B] @ [entry_A] \<noteq> []
   \<and> verify candidate_16 ([entry_B] @ entry_no_hashes # [entry_A])
       = verify candidate_16 ([entry_B] @ [entry_A])
   \<and> (\<exists>d. verify candidate_malformed [entry_no_hashes, entry_A, entry_empty_hash] = Inr d)
   \<and> verify candidate_malformed [entry_no_hashes, entry_A, entry_empty_hash]
       = Inr \<lparr>match_found = False, match_type = None, similarity = 0,
              matched_fingerprint = None,
              details = [(''message'', ''No significant match found''),
                         (''highest_similarity'', ''0.0%'')]\<rparr>
   \<and> verify candidate_malformed []
       = Inr \<lparr>match_found = False, match_type = None, similarity = 0,
              matched_fingerprint = None,
              details = [(''message'', ''No protected fingerprints in database'')]\<rparr>"
proof -
  have m: "\<not> (truthy (Some ''0123456789abcdef'') \<and> truthy (Some ''''))"
    by (simp add: truthy_def)
  have i: "incomparable candidate_16 entry_no_hashes"
    by code_simp
  have ne: "[entry_B] @ [entry_A] \<noteq> []"
    by simp
  have ev: "verify candidate_malformed [entry_no_hashes, entry_A, entry_empty_hash]
       = Inr \<lparr>match_found = False, match_type = None, similarity = 0,
              matched_fingerprint = None,
              details = [(''message'', ''No significant match found''),
                         (''highest_similarity'', ''0.0%'')]\<rparr>"
    by code_simp
  note t = verify_never_raises [of candidate_16 "[entry_no_hashes]" "Some ''0123456789abcdef''"
      "Some ''''" entry_no_hashes "[entry_B]" "[entry_A]"]
  note u = verify_never_raises [of candidate_malformed
      "[entry_no_hashes, entry_A, entry_empty_hash]" None None entry_no_hashes "[]" "[]"]
  from t m have c: "check_perceptual_similarity (Some ''0123456789abcdef'') (Some '''') = Inr 0
      \<and> check_face_similarity (Some ''0123456789abcdef'') (Some '''') = Inr 0"
    by blast
  from t i ne have s: "verify candidate_16 ([entry_B] @ entry_no_hashes # [entry_A])
       = verify candidate_16 ([entry_B] @ [entry_A])"
    by blast
  from u have r: "\<exists>d. verify candidate_malformed [entry_no_hashes, entry_A, entry_empty_hash]
                     = Inr d"
    by blast
  from u have e: "verify candidate_malformed []
       = Inr \<lparr>match_found = False, match_type = None, similarity = 0,
              matched_fingerprint = None,
              details = [(''message'', ''No protected fingerprints in database'')]\<rparr>"
    by blast
  from m c i ne s r ev e show ?thesis
    by blast
qed

section \<open>Properties of the trust aggregator\<close>

subsection \<open>Rounding\<close>







subsection \<open>Empty mappings and absent arguments\<close>

lemma empty_not_given:
  "\<not> image_given (Some empty_image)" "\<not> fake_news_given (Some empty_fake_news)"
  "\<not> sensitive_given (Some empty_sensitive)"
  "\<not> image_given None" "\<not> fake_news_given None" "\<not> sensitive_given None"
  by (simp_all add: image_given_def fake_news_given_def sensitive_given_def empty_image_def
      empty_fake_news_def empty_sensitive_def)

lemma empty_image_parts:
  "process_image (Some empty_image) = process_image None"
  "is_deepfake (Some empty_image) = is_deepfake None"
  "confidences (Some empty_image) t = confidences None t"
  by (simp_all add: process_image_def is_deepfake_def confidences_def empty_not_given)

lemma empty_fake_news_parts:
  "process_fake_news (Some empty_fake_news) = process_fake_news None"
  "likelihood_above (Some empty_fake_news) bound = likelihood_above None bound"
  "confidences i (Some empty_fake_news) = confidences i None"
  by (simp_all add: process_fake_news_def likelihood_above_def confidences_def empty_not_given)

lemma empty_sensitive_parts:
  "process_sensitive (Some empty_sensitive) = process_sensitive None"
  by (simp add: process_sensitive_def empty_not_given)

lemma aggregate_empty_image: "aggregate (Some empty_image) t s = aggregate None t s"
  unfolding aggregate_def explanations_def risk_scores_def determine_threat_category_def
    generate_recommendations_def
  by (simp only: empty_image_parts)

lemma aggregate_empty_fake_news: "aggregate i (Some empty_fake_news) s = aggregate i None s"
  unfolding aggregate_def explanations_def risk_scores_def determine_threat_category_def
    generate_recommendations_def
  by (simp only: empty_fake_news_parts)

lemma aggregate_empty_sensitive: "aggregate i t (Some empty_sensitive) = aggregate i t None"
  unfolding aggregate_def explanations_def risk_scores_def
  by (simp only: empty_sensitive_parts)

lemma aggregate_nothing:
  "aggregate None None None
   = \<lparr>overall_trust_risk = 50, threat_category = ''Medium: Moderate Risk'', confidence = 50,
      module_results = \<lparr>image = None, fake_news = None, sensitive = None\<rparr>,
      explanation = ''No analysis data available'',
      recommendations = [Moderate_Risk_Verify, Check_Fact_Checking]\<rparr>"
  by code_simp

text \<open>
  Claim C10. An argument of \<^verbatim>\<open>aggregate\<close> that is the empty mapping is treated like an
  absent argument: the channel adds nothing to the risk scores (no risk, no weight),
  nothing to the explanations and no entry to \<^verbatim>\<open>module_results\<close>, and the whole verdict
  is the one of the call without that argument. With three empty mappings the verdict is
  the one of the call with no argument.
\<close>

theorem empty_mapping_is_absent:
  "process_image (Some empty_image) = (None, [], [])
   \<and> process_fake_news (Some empty_fake_news) = (None, [], [])
   \<and> process_sensitive (Some empty_sensitive) = (None, [], [])
   \<and> aggregate (Some empty_image) t s = aggregate None t s
   \<and> aggregate i (Some empty_fake_news) s = aggregate i None s
   \<and> aggregate i t (Some empty_sensitive) = aggregate i t None
   \<and> aggregate (Some empty_image) (Some empty_fake_news) (Some empty_sensitive)
       = aggregate None None None"
proof (intro conjI)
  show "process_image (Some empty_image) = (None, [], [])"
    by (simp add: process_image_def empty_not_given)
  show "process_fake_news (Some empty_fake_news) = (None, [], [])"
    by (simp add: process_fake_news_def empty_not_given)
  show "process_sensitive (Some empty_sensitive) = (None, [], [])"
    by (simp add: process_sensitive_def empty_not_given)
  show "aggregate (Some empty_image) t s = aggregate None t s"
    by (rule aggregate_empty_image)
  show "aggregate i (Some empty_fake_news) s = aggregate i None s"
    by (rule aggregate_empty_fake_news)
  show "aggregate i t (Some empty_sensitive) = aggregate i t None"
    by (rule aggregate_empty_sensitive)
  show "aggregate (Some empty_image) (Some empty_fake_news) (Some empty_sensitive)
        = aggregate None None None"
    by (simp only: aggregate_empty_image aggregate_empty_fake_news aggregate_empty_sensitive)
qed

theorem empty_mapping_is_absent_witness:
  "aggregate (Some empty_image) (Some empty_fake_news) (Some empty_sensitive)
   = \<lparr>overall_trust_risk = 50, threat_category = ''Medium: Moderate Risk'', confidence = 50,
      module_results = \<lparr>image = None, fake_news = None, sensitive = None\<rparr>,
      explanation = ''No analysis data available'',
      recommendations = [Moderate_Risk_Verify, Check_Fact_Checking]\<rparr>"
  using empty_mapping_is_absent [of None None None] aggregate_nothing by simp

text \<open>
  Claim C7, as the code has it. \<^verbatim>\<open>aggregate\<close> with all three arguments absent returns
  the overall risk 50, the threat category \<^verbatim>\<open>Medium: Moderate Risk\<close> (not
  \<^verbatim>\<open>Low-Medium: Some Concerns\<close>) and the explanation \<^verbatim>\<open>No analysis data available\<close>, with
  a capital N.
\<close>

theorem nothing_to_aggregate:
  "overall_trust_risk (aggregate None None None) = 50
   \<and> threat_category (aggregate None None None) = ''Medium: Moderate Risk''
   \<and> threat_category (aggregate None None None) \<noteq> ''Low-Medium: Some Concerns''
   \<and> explanation (aggregate None None None) = ''No analysis data available''"
  by (simp add: aggregate_nothing)

theorem nothing_to_aggregate_witness:
  "explanation (aggregate None None None) = ''No analysis data available''
   \<and> overall_trust_risk (aggregate None None None) = 50"
  using nothing_to_aggregate by simp

theorem explanation_literal_counterexample:
  "explanation (aggregate None None None) \<noteq> ''no analysis data available''"
  by (simp add: aggregate_nothing)

subsection \<open>The weighted overall risk\<close>
















subsection \<open>The threat category\<close>






subsection \<open>The confidence\<close>







end
